theory Spec2Isabelle
  imports Complex_Main
begin

section \<open>Strings, numbers and JSON values\<close>

text \<open>
  Python's \<open>str.lower\<close>, on the ASCII letters. The handlers only compare lowered
  strings with the ASCII words \<open>name\<close>, \<open>category\<close>, \<open>available\<close> and \<open>true\<close>;
  no character outside ASCII lowers to a letter of these words, so the bytes above 127
  are left as they are.
\<close>

definition lower_char :: "char \<Rightarrow> char" where
  "lower_char c =
     (let n = (of_char c :: nat) in if 65 \<le> n \<and> n \<le> 90 then char_of (n + 32) else c)"

definition lower :: "string \<Rightarrow> string" where
  "lower s = map lower_char s"

text \<open>Decimal digits: \<open>str(n)\<close> of a natural number and the reading of a digit string.\<close>

definition digit_char :: "nat \<Rightarrow> char" where
  "digit_char d = char_of (48 + d)"

definition is_digit :: "char \<Rightarrow> bool" where
  "is_digit c \<longleftrightarrow> 48 \<le> (of_char c :: nat) \<and> (of_char c :: nat) \<le> 57"

definition digit_val :: "char \<Rightarrow> nat" where
  "digit_val c = of_char c - 48"

fun str_nat :: "nat \<Rightarrow> string" where
  "str_nat n = (if n < 10 then [digit_char n] else str_nat (n div 10) @ [digit_char (n mod 10)])"

declare str_nat.simps [simp del]

definition digits_val :: "string \<Rightarrow> nat" where
  "digits_val s = foldl (\<lambda>a c. 10 * a + digit_val c) 0 s"

definition nat_of_str :: "string \<Rightarrow> nat option" where
  "nat_of_str s = (if s \<noteq> [] \<and> list_all is_digit s then Some (digits_val s) else None)"

text \<open>
  Modelled from the spec: the decimal value of the \<open>price\<close> field (the \<open>Decimal\<close> of
  service/models.py, which is not among the sources). A decimal is an unscaled integer
  and a scale, the number of digits after the point: \<open>12.50\<close> is \<open>1250\<close> at scale 2. It
  is "always serialized as a string on output" and "accepted as numeric or
  numeric-string on input"; the string form is the plain notation, an optional sign,
  the integer digits and, at a positive scale, the point and the fraction digits.
\<close>

record decimal =
  unscaled :: int
  scale :: nat

definition dec_value :: "decimal \<Rightarrow> rat" where
  "dec_value d = of_int (unscaled d) / 10 ^ scale d"

definition zero_pad :: "nat \<Rightarrow> string \<Rightarrow> string" where
  "zero_pad n s = replicate (n - length s) (CHR ''0'') @ s"

definition str_decimal :: "decimal \<Rightarrow> string" where
  "str_decimal d =
     (let ds = zero_pad (Suc (scale d)) (str_nat (nat \<bar>unscaled d\<bar>));
          k = length ds - scale d
      in (if unscaled d < 0 then ''-'' else '''') @
         (if scale d = 0 then ds else take k ds @ ''.'' @ drop k ds))"

definition parse_decimal :: "string \<Rightarrow> decimal option" where
  "parse_decimal s =
     (let (neg, r) = (case s of
                        c # t \<Rightarrow> if c = CHR ''-'' then (True, t)
                                 else if c = CHR ''+'' then (False, t) else (False, s)
                      | [] \<Rightarrow> (False, s));
          ip = takeWhile (\<lambda>c. c \<noteq> CHR ''.'') r;
          fp = (case dropWhile (\<lambda>c. c \<noteq> CHR ''.'') r of [] \<Rightarrow> [] | _ # f \<Rightarrow> f)
      in if ip @ fp \<noteq> [] \<and> list_all is_digit (ip @ fp)
         then Some \<lparr>unscaled = (if neg then - int (digits_val (ip @ fp))
                                 else int (digits_val (ip @ fp))),
                    scale = length fp\<rparr>
         else None)"

text \<open>
  Modelled from the spec: the decimal of a float, for a price that is "accepted as
  numeric". The conversion is exact, as Python's \<open>Decimal(float)\<close> is: the fraction
  \<open>n / 2 ^ k\<close>, in lowest terms, is the decimal \<open>n * 5 ^ k\<close> at scale \<open>k\<close>, so the float
  \<open>12.5\<close> is \<open>125\<close> at scale 1.
\<close>

fun lowest_terms :: "int \<Rightarrow> nat \<Rightarrow> int \<times> nat" where
  "lowest_terms n 0 = (n, 0)"
| "lowest_terms n (Suc k) = (if even n then lowest_terms (n div 2) k else (n, Suc k))"

definition decimal_of_float :: "int \<Rightarrow> nat \<Rightarrow> decimal" where
  "decimal_of_float n k =
     (case lowest_terms n k of (m, j) \<Rightarrow> \<lparr>unscaled = m * 5 ^ j, scale = j\<rparr>)"

text \<open>
  The value \<open>request.get_json()\<close> returns: a JSON document as Python's \<open>json\<close> module
  reads it. An object is the list of its key/value pairs, read with \<open>map_of\<close>. A number
  written without a fraction or an exponent is an \<open>int\<close>; any other number is a \<open>float\<close>,
  a binary fraction, held here as the numerator \<open>n\<close> and the exponent \<open>k\<close> of
  \<open>n / 2 ^ k\<close> (\<open>float.as_integer_ratio\<close>): the literal \<open>12.50\<close> arrives as the float
  \<open>12.5\<close>, which is \<open>JFloat 25 1\<close>.
\<close>

datatype json =
    JNull
  | JBool bool
  | JInt int
  | JFloat int nat
  | JStr string
  | JArr "json list"
  | JObj "(string \<times> json) list"

section \<open>The Product entity\<close>

text \<open>
  Modelled from the spec: the \<open>Category\<close> enumeration of service/models.py, which is not
  among the sources ("members: UNKNOWN plus a fixed set of category names"). The class
  object is given by the names of its members and by the names of the other attributes
  that \<open>getattr\<close> finds on it (every Python class has \<open>__doc__\<close>, \<open>__name__\<close>,
  \<open>__module__\<close>, and an \<open>Enum\<close> class has \<open>__members__\<close>). A member is identified by its
  name.
\<close>

record enum_class =
  members :: "string list"
  other_attrs :: "string list"

datatype pyobj = Member string | Attr string

text \<open>
  \<open>getattr(Category, value)\<close>: \<open>None\<close> stands for the \<open>AttributeError\<close> that Python raises
  when the class has no attribute of that name.
\<close>

definition getattr_Category :: "enum_class \<Rightarrow> string \<Rightarrow> pyobj option" where
  "getattr_Category C v =
     (if v \<in> set (members C) then Some (Member v)
      else if v \<in> set (other_attrs C) then Some (Attr v)
      else None)"

text \<open>
  Modelled from the spec: the Product record of service/models.py (section 3 of the
  spec). \<open>id'\<close> is "null before persistence"; \<open>category\<close> holds the member's name.
\<close>

record product =
  id' :: "nat option"
  name :: string
  description :: string
  price :: decimal
  available :: bool
  category :: string

datatype exn = HTTPException nat | DataValidationError | Unhandled

text \<open>
  \<open>Product()\<close>, the instance before \<open>deserialize\<close> populates it. The five data fields of
  a new instance are not set; \<open>deserialize\<close> overwrites every one of them or fails, so
  the placeholders below are never observed.
\<close>

definition Product :: product where
  "Product = \<lparr>id' = None, name = '''', description = '''',
              price = \<lparr>unscaled = 0, scale = 0\<rparr>, available = False, category = ''''\<rparr>"

text \<open>
  Modelled from the spec: \<open>Product.serialize\<close> of service/models.py: "produces
  \<open>{id, name, description, price (as string), available (bool), category (enum name
  string)}\<close>".
\<close>

definition serialize :: "product \<Rightarrow> json" where
  "serialize p = JObj
     [(''id'', (case id' p of None \<Rightarrow> JNull | Some n \<Rightarrow> JInt (int n))),
      (''name'', JStr (name p)),
      (''description'', JStr (description p)),
      (''price'', JStr (str_decimal (price p))),
      (''available'', JBool (available p)),
      (''category'', JStr (category p))]"

text \<open>
  Modelled from the spec: \<open>Product.deserialize\<close> of service/models.py. It "fails with a
  validation error when: input is not a mapping, a required key is missing,
  \<open>available\<close> is present but not boolean-typed, or \<open>category\<close> does not match a known
  enumeration member"; by the invariant of section 3 a field that is "not of the correct
  type" fails validation too (\<open>name\<close> a non-empty string, \<open>description\<close> a string, \<open>price\<close>
  "numeric or numeric-string"). The keys are read in the order name, description, price,
  available, category. "On success, mutates the instance's fields in place and returns
  it": the \<open>id'\<close> of the instance is kept.
\<close>

definition field_name :: "json \<Rightarrow> string option" where
  "field_name j = (case j of JStr s \<Rightarrow> (if s = [] then None else Some s) | _ \<Rightarrow> None)"

definition field_description :: "json \<Rightarrow> string option" where
  "field_description j = (case j of JStr s \<Rightarrow> Some s | _ \<Rightarrow> None)"

definition field_price :: "json \<Rightarrow> decimal option" where
  "field_price j =
     (case j of
        JInt i \<Rightarrow> Some \<lparr>unscaled = i, scale = 0\<rparr>
      | JFloat n k \<Rightarrow> Some (decimal_of_float n k)
      | JStr s \<Rightarrow> parse_decimal s
      | _ \<Rightarrow> None)"

definition field_available :: "json \<Rightarrow> bool option" where
  "field_available j = (case j of JBool b \<Rightarrow> Some b | _ \<Rightarrow> None)"

definition field_category :: "enum_class \<Rightarrow> json \<Rightarrow> string option" where
  "field_category C j =
     (case j of JStr s \<Rightarrow> (if s \<in> set (members C) then Some s else None) | _ \<Rightarrow> None)"

definition required :: "(string \<times> json) list \<Rightarrow> string \<Rightarrow> (json \<Rightarrow> 'a option) \<Rightarrow> exn + 'a" where
  "required kv key conv =
     (case map_of kv key of
        None \<Rightarrow> Inl DataValidationError
      | Some j \<Rightarrow> (case conv j of None \<Rightarrow> Inl DataValidationError | Some v \<Rightarrow> Inr v))"

definition deserialize :: "enum_class \<Rightarrow> product \<Rightarrow> json \<Rightarrow> exn + product" where
  "deserialize C self data =
     (case data of
        JObj kv \<Rightarrow>
          (case required kv ''name'' field_name of Inl e \<Rightarrow> Inl e | Inr n \<Rightarrow>
          (case required kv ''description'' field_description of Inl e \<Rightarrow> Inl e | Inr d \<Rightarrow>
          (case required kv ''price'' field_price of Inl e \<Rightarrow> Inl e | Inr pr \<Rightarrow>
          (case required kv ''available'' field_available of Inl e \<Rightarrow> Inl e | Inr a \<Rightarrow>
          (case required kv ''category'' (field_category C) of Inl e \<Rightarrow> Inl e | Inr c \<Rightarrow>
             Inr (self\<lparr>name := n, description := d, price := pr, available := a,
                       category := c\<rparr>))))))
      | _ \<Rightarrow> Inl DataValidationError)"

section \<open>The data access layer\<close>

text \<open>
  Modelled from the spec: the persistence operations of service/models.py (section 4.2
  of the spec), which is not among the sources. The table is the list of its rows in
  insertion order. \<open>create\<close> "assigns a fresh id (forcing id to absent/null before
  insert)" and the id "becomes populated on the instance"; \<open>update\<close> "fails with a
  validation error if id is null"; \<open>delete\<close> "removes the row with matching id";
  \<open>find\<close> is a "primary-key lookup", here with the key as the route hands it over, the
  text of a URL segment (a segment that is not a number is the key of no row); the
  \<open>find_by\<close> queries are exact matches.
\<close>

type_synonym store = "product list"

definition fresh_id :: "store \<Rightarrow> nat" where
  "fresh_id rows = Suc (fold max (map (\<lambda>p. case id' p of None \<Rightarrow> 0 | Some n \<Rightarrow> n) rows) 0)"

definition Product_create :: "store \<Rightarrow> product \<Rightarrow> store \<times> product" where
  "Product_create rows self =
     (let p = self\<lparr>id' := Some (fresh_id rows)\<rparr> in (rows @ [p], p))"

definition Product_update :: "store \<Rightarrow> product \<Rightarrow> exn + store" where
  "Product_update rows self =
     (case id' self of
        None \<Rightarrow> Inl DataValidationError
      | Some _ \<Rightarrow> Inr (map (\<lambda>q. if id' q = id' self then self else q) rows))"

definition Product_delete :: "store \<Rightarrow> product \<Rightarrow> store" where
  "Product_delete rows self = filter (\<lambda>q. id' q \<noteq> id' self) rows"

definition Product_all :: "store \<Rightarrow> product list" where
  "Product_all rows = rows"

definition Product_find :: "store \<Rightarrow> string \<Rightarrow> product option" where
  "Product_find rows product_id =
     (case nat_of_str product_id of
        None \<Rightarrow> None
      | Some n \<Rightarrow> List.find (\<lambda>p. id' p = Some n) rows)"

definition find_by_name :: "store \<Rightarrow> string \<Rightarrow> product list" where
  "find_by_name rows v = filter (\<lambda>p. name p = v) rows"

definition find_by_category :: "store \<Rightarrow> pyobj \<Rightarrow> product list" where
  "find_by_category rows c = filter (\<lambda>p. Member (category p) = c) rows"

definition find_by_availability :: "store \<Rightarrow> bool \<Rightarrow> product list" where
  "find_by_availability rows b = filter (\<lambda>p. available p = b) rows"

section \<open>Requests and responses\<close>

text \<open>
  What the handlers of service/routes.py read from Flask's \<open>request\<close>: the query string
  as the list of its key/value pairs, the \<open>Content-Type\<close> header if there is one, and
  the body as \<open>get_json\<close> parses it (\<open>None\<close> when the body is not a JSON document). The
  path is the list of its segments.
\<close>

datatype http_method = GET | POST | PUT | DELETE

record request =
  meth :: http_method
  path :: "string list"
  args :: "(string \<times> string) list"
  content_type :: "string option"
  json_body :: "json option"

datatype body = JsonBody json | TextBody string | StaticFile string | ErrorPage

record response =
  status :: nat
  body :: body
  location :: "string list option"

text \<open>
  \<open>request.args\<close> is a werkzeug \<open>MultiDict\<close>, a dictionary from each key to the list of
  its values: its \<open>len\<close> counts the keys, and \<open>items()\<close> starts with the first key and
  the first of its values, which is the first pair of the query string.
\<close>

definition len_args :: "(string \<times> string) list \<Rightarrow> nat" where
  "len_args a = length (remdups (map fst a))"

text \<open>
  \<open>request.get_json()\<close> on a request whose content type is JSON: a body that does not
  parse aborts with 400.
\<close>

definition get_json :: "request \<Rightarrow> exn + json" where
  "get_json req = (case json_body req of None \<Rightarrow> Inl (HTTPException 400) | Some data \<Rightarrow> Inr data)"

definition url_for_get_products :: "nat \<Rightarrow> string list" where
  "url_for_get_products product_id = [''products'', str_nat product_id]"

definition jsonify :: "json \<Rightarrow> nat \<Rightarrow> response" where
  "jsonify j code = \<lparr>status = code, body = JsonBody j, location = None\<rparr>"

section \<open>The handlers of service/routes.py\<close>

definition healthcheck :: response where
  "healthcheck =
     jsonify (JObj [(''status'', JInt 200), (''message'', JStr ''OK'')]) 200"

definition index :: response where
  "index = \<lparr>status = 200, body = StaticFile ''index.html'', location = None\<rparr>"

definition check_content_type :: "request \<Rightarrow> string \<Rightarrow> exn + unit" where
  "check_content_type req ct =
     (case content_type req of
        None \<Rightarrow> Inl (HTTPException 415)
      | Some v \<Rightarrow> if v = ct then Inr () else Inl (HTTPException 415))"

definition create_products :: "enum_class \<Rightarrow> store \<Rightarrow> request \<Rightarrow> store \<times> (exn + response)" where
  "create_products Category rows req =
     (case check_content_type req ''application/json'' of Inl e \<Rightarrow> (rows, Inl e) | Inr _ \<Rightarrow>
     (case get_json req of Inl e \<Rightarrow> (rows, Inl e) | Inr data \<Rightarrow>
     (case deserialize Category Product data of Inl e \<Rightarrow> (rows, Inl e) | Inr product \<Rightarrow>
     (case Product_create rows product of (rows', product') \<Rightarrow>
     (case id' product' of None \<Rightarrow> (rows', Inl Unhandled) | Some n \<Rightarrow>
        (rows', Inr ((jsonify (serialize product') 201)
                       \<lparr>location := Some (url_for_get_products n)\<rparr>)))))))"

definition list_all_products :: "enum_class \<Rightarrow> store \<Rightarrow> request \<Rightarrow> exn + response" where
  "list_all_products Category rows req =
     (if len_args (args req) > 1 then Inl (HTTPException 400)
      else
        let (param, value) =
              (if len_args (args req) = 1
               then (lower (fst (hd (args req))), snd (hd (args req)))
               else ('''', ''''))
        in if param \<notin> set ['''', ''name'', ''category'', ''available'']
           then Inl (HTTPException 400)
           else
             (case (if param = ''name'' then Inr (find_by_name rows value)
                    else if param = ''category'' then
                      (case getattr_Category Category value of
                         None \<Rightarrow> Inl (HTTPException 400)
                       | Some category' \<Rightarrow> Inr (find_by_category rows category'))
                    else if param = ''available'' then
                      Inr (find_by_availability rows (lower value = ''true''))
                    else Inr (Product_all rows)) of
                Inl e \<Rightarrow> Inl e
              | Inr products \<Rightarrow> Inr (jsonify (JArr (map serialize products)) 200)))"

definition get_products :: "store \<Rightarrow> string \<Rightarrow> exn + response" where
  "get_products rows product_id =
     (case Product_find rows product_id of
        None \<Rightarrow> Inl (HTTPException 404)
      | Some product \<Rightarrow> Inr (jsonify (serialize product) 200))"

definition update_products ::
    "enum_class \<Rightarrow> store \<Rightarrow> request \<Rightarrow> string \<Rightarrow> store \<times> (exn + response)" where
  "update_products Category rows req product_id =
     (case check_content_type req ''application/json'' of Inl e \<Rightarrow> (rows, Inl e) | Inr _ \<Rightarrow>
     (case get_json req of Inl e \<Rightarrow> (rows, Inl e) | Inr data \<Rightarrow>
     (case Product_find rows product_id of
        None \<Rightarrow> (rows, Inl (HTTPException 404))
      | Some product \<Rightarrow>
     (case deserialize Category product data of Inl e \<Rightarrow> (rows, Inl e) | Inr product' \<Rightarrow>
     (case Product_update rows product' of Inl e \<Rightarrow> (rows, Inl e) | Inr rows' \<Rightarrow>
        (rows', Inr (jsonify (serialize product') 200)))))))"

definition delete_products :: "store \<Rightarrow> string \<Rightarrow> store \<times> (exn + response)" where
  "delete_products rows product_id =
     (case Product_find rows product_id of
        None \<Rightarrow> (rows, Inl (HTTPException 404))
      | Some product \<Rightarrow>
          (Product_delete rows product,
           Inr \<lparr>status = 204, body = TextBody '''', location = None\<rparr>))"

text \<open>
  The routing table of the \<open>@app.route\<close> decorators. A path that no rule matches is 404,
  a method that the matching rules do not allow is 405.
\<close>

definition dispatch :: "enum_class \<Rightarrow> store \<Rightarrow> request \<Rightarrow> store \<times> (exn + response)" where
  "dispatch Category rows req =
     (case path req of
        [] \<Rightarrow> (if meth req = GET then (rows, Inr index) else (rows, Inl (HTTPException 405)))
      | [a] \<Rightarrow>
          (if a = ''health'' then
             (if meth req = GET then (rows, Inr healthcheck)
              else (rows, Inl (HTTPException 405)))
           else if a = ''products'' then
             (if meth req = POST then create_products Category rows req
              else if meth req = GET then (rows, list_all_products Category rows req)
              else (rows, Inl (HTTPException 405)))
           else (rows, Inl (HTTPException 404)))
      | [a, product_id] \<Rightarrow>
          (if a = ''products'' then
             (if meth req = GET then (rows, get_products rows product_id)
              else if meth req = PUT then update_products Category rows req product_id
              else if meth req = DELETE then delete_products rows product_id
              else (rows, Inl (HTTPException 405)))
           else (rows, Inl (HTTPException 404)))
      | _ \<Rightarrow> (rows, Inl (HTTPException 404)))"

text \<open>
  Modelled from the spec: the error handlers of service/common, which are not among the
  sources (section 7 of the spec). An \<open>abort\<close> becomes the response of its status, a
  validation error is "surfaced as 400 Bad Request", anything else is "a generic
  500-class failure".
\<close>

definition error_response :: "exn \<Rightarrow> response" where
  "error_response e =
     \<lparr>status = (case e of HTTPException code \<Rightarrow> code | DataValidationError \<Rightarrow> 400 | Unhandled \<Rightarrow> 500),
      body = ErrorPage, location = None\<rparr>"

definition handle :: "enum_class \<Rightarrow> store \<Rightarrow> request \<Rightarrow> store \<times> response" where
  "handle Category rows req =
     (case dispatch Category rows req of
        (rows', Inl e) \<Rightarrow> (rows', error_response e)
      | (rows', Inr resp) \<Rightarrow> (rows', resp))"

section \<open>Vocabulary of the properties\<close>

text \<open>
  The four ways in which section 4.1 of the spec lets a payload fail validation: it is
  not a mapping, a required key is missing, \<open>available\<close> is present but not a boolean,
  \<open>category\<close> is present but not the name of a member.
\<close>

definition not_a_mapping :: "json \<Rightarrow> bool" where
  "not_a_mapping D = (case D of JObj kv \<Rightarrow> False | _ \<Rightarrow> True)"

definition key_missing :: "json \<Rightarrow> bool" where
  "key_missing D =
     (case D of
        JObj kv \<Rightarrow> map_of kv ''name'' = None \<or> map_of kv ''description'' = None \<or>
                   map_of kv ''price'' = None \<or> map_of kv ''available'' = None \<or>
                   map_of kv ''category'' = None
      | _ \<Rightarrow> False)"

definition available_not_boolean :: "json \<Rightarrow> bool" where
  "available_not_boolean D =
     (case D of
        JObj kv \<Rightarrow> (case map_of kv ''available'' of
                      None \<Rightarrow> False | Some (JBool b) \<Rightarrow> False | Some _ \<Rightarrow> True)
      | _ \<Rightarrow> False)"

definition category_unknown :: "enum_class \<Rightarrow> json \<Rightarrow> bool" where
  "category_unknown C D =
     (case D of
        JObj kv \<Rightarrow> (case map_of kv ''category'' of
                      None \<Rightarrow> False | Some (JStr s) \<Rightarrow> s \<notin> set (members C) | Some _ \<Rightarrow> True)
      | _ \<Rightarrow> False)"

definition invalid_payload :: "enum_class \<Rightarrow> json \<Rightarrow> bool" where
  "invalid_payload C D \<longleftrightarrow>
     not_a_mapping D \<or> key_missing D \<or> available_not_boolean D \<or> category_unknown C D"

text \<open>
  The payloads in which \<open>name\<close>, \<open>description\<close> and \<open>price\<close>, where they are present, hold
  a value of the field's type.
\<close>

definition typed_where_present :: "(string \<times> json) list \<Rightarrow> string \<Rightarrow> (json \<Rightarrow> 'a option) \<Rightarrow> bool" where
  "typed_where_present kv key conv =
     (case map_of kv key of None \<Rightarrow> True | Some j \<Rightarrow> conv j \<noteq> None)"

definition text_and_price_typed :: "json \<Rightarrow> bool" where
  "text_and_price_typed D =
     (case D of
        JObj kv \<Rightarrow> typed_where_present kv ''name'' field_name \<and>
                   typed_where_present kv ''description'' field_description \<and>
                   typed_where_present kv ''price'' field_price
      | _ \<Rightarrow> True)"

text \<open>The value a payload holds under a key, if it is a mapping that has the key.\<close>

definition payload_get :: "json \<Rightarrow> string \<Rightarrow> json option" where
  "payload_get D key = (case D of JObj kv \<Rightarrow> map_of kv key | _ \<Rightarrow> None)"

text \<open>
  The requests of the properties: a \<open>GET /products\<close> with a query string, a
  \<open>POST /products\<close>, and the requests on one product.
\<close>

definition list_request :: "(string \<times> string) list \<Rightarrow> request" where
  "list_request q =
     \<lparr>meth = GET, path = [''products''], args = q, content_type = None, json_body = None\<rparr>"

definition create_request :: "string option \<Rightarrow> json option \<Rightarrow> request" where
  "create_request ct b =
     \<lparr>meth = POST, path = [''products''], args = [], content_type = ct, json_body = b\<rparr>"

definition product_request :: "http_method \<Rightarrow> string \<Rightarrow> string option \<Rightarrow> json option \<Rightarrow> request" where
  "product_request m product_id ct b =
     \<lparr>meth = m, path = [''products'', product_id], args = [], content_type = ct, json_body = b\<rparr>"

text \<open>
  Concrete inputs: an enumeration with the two members the sources name
  (\<open>Category.UNKNOWN\<close> in service/routes.py, \<open>Category.CLOTHS\<close> in tests/test_models.py),
  and the product of \<open>test_create_a_product\<close>.
\<close>

definition example_Category :: enum_class where
  "example_Category =
     \<lparr>members = [''UNKNOWN'', ''CLOTHS''],
      other_attrs = [''__class__'', ''__doc__'', ''__members__'', ''__module__'', ''__name__'']\<rparr>"

definition fedora :: product where
  "fedora = \<lparr>id' = None, name = ''Fedora'', description = ''A red hat'',
             price = \<lparr>unscaled = 1250, scale = 2\<rparr>, available = True, category = ''CLOTHS''\<rparr>"

text \<open>
  The same product with the price that the float \<open>12.5\<close> deserializes to.
\<close>

definition posted_fedora :: product where
  "posted_fedora = fedora\<lparr>price := \<lparr>unscaled = 125, scale = 1\<rparr>\<rparr>"

definition fedora_payload :: "json \<Rightarrow> json \<Rightarrow> json" where
  "fedora_payload pr av =
     JObj [(''name'', JStr ''Fedora''), (''description'', JStr ''A red hat''),
           (''price'', pr), (''available'', av), (''category'', JStr ''CLOTHS'')]"

text \<open>A table of two rows: the product above, persisted, and one that is not available.\<close>

definition fedora_row :: product where
  "fedora_row = fedora\<lparr>id' := Some 1\<rparr>"

definition sold_out_row :: product where
  "sold_out_row = \<lparr>id' = Some 2, name = ''Hat'', description = ''A blue hat'',
                   price = \<lparr>unscaled = 999, scale = 2\<rparr>, available = False,
                   category = ''UNKNOWN''\<rparr>"

definition example_store :: store where
  "example_store = [fedora_row, sold_out_row]"

section \<open>Digits and decimals\<close>

lemma digit_val_digit_char: "d < 10 \<Longrightarrow> digit_val (digit_char d) = d"
  by (simp add: digit_val_def digit_char_def)

lemma is_digit_digit_char: "d < 10 \<Longrightarrow> is_digit (digit_char d)"
  by (simp add: is_digit_def digit_char_def)

lemma digits_val_snoc: "digits_val (s @ [c]) = 10 * digits_val s + digit_val c"
  by (simp add: digits_val_def)

lemma digits_val_str_nat: "digits_val (str_nat n) = n"
proof (induction n rule: str_nat.induct)
  case (1 n)
  show ?case
  proof (cases "n < 10")
    case True
    then show ?thesis
      by (subst str_nat.simps) (simp add: digits_val_def digit_val_digit_char)
  next
    case False
    with 1 show ?thesis
      by (subst str_nat.simps) (simp add: digits_val_snoc digit_val_digit_char)
  qed
qed

lemma str_nat_digits: "list_all is_digit (str_nat n)"
proof (induction n rule: str_nat.induct)
  case (1 n)
  show ?case
  proof (cases "n < 10")
    case True
    then show ?thesis
      by (subst str_nat.simps) (simp add: is_digit_digit_char)
  next
    case False
    with 1 show ?thesis
      by (subst str_nat.simps) (simp add: is_digit_digit_char)
  qed
qed

lemma str_nat_nonempty: "str_nat n \<noteq> []"
  by (subst str_nat.simps) simp

lemma nat_of_str_str_nat: "nat_of_str (str_nat n) = Some n"
  by (simp add: nat_of_str_def str_nat_nonempty str_nat_digits digits_val_str_nat)

lemma digits_val_replicate_zero: "digits_val (replicate k (CHR ''0'') @ s) = digits_val s"
proof (induction k)
  case 0
  show ?case by simp
next
  case (Suc k)
  have "digits_val (CHR ''0'' # t) = digits_val t" for t
  proof -
    have "foldl (\<lambda>a c. 10 * a + digit_val c) (0::nat) (CHR ''0'' # t) = foldl (\<lambda>a c. 10 * a + digit_val c) 0 t"
      by (simp add: digit_val_def)
    then show ?thesis by (simp add: digits_val_def)
  qed
  with Suc show ?case by simp
qed

lemma digits_val_zero_pad: "digits_val (zero_pad n s) = digits_val s"
  by (simp add: zero_pad_def digits_val_replicate_zero)

lemma zero_pad_digits: "list_all is_digit s \<Longrightarrow> list_all is_digit (zero_pad n s)"
  by (auto simp: zero_pad_def list_all_iff is_digit_def)

lemma length_zero_pad: "n \<le> length (zero_pad n s)"
  by (simp add: zero_pad_def)

lemma zero_pad_nonempty: "s \<noteq> [] \<Longrightarrow> zero_pad n s \<noteq> []"
  by (simp add: zero_pad_def)

lemma digits_no_point: "list_all is_digit s \<Longrightarrow> takeWhile (\<lambda>c. c \<noteq> CHR ''.'') (s @ t) = s @ takeWhile (\<lambda>c. c \<noteq> CHR ''.'') t"
  by (induction s) (auto simp: is_digit_def)

lemma digits_no_point_drop: "list_all is_digit s \<Longrightarrow> dropWhile (\<lambda>c. c \<noteq> CHR ''.'') (s @ t) = dropWhile (\<lambda>c. c \<noteq> CHR ''.'') t"
  by (induction s) (auto simp: is_digit_def)

lemma digits_hd_no_sign: "list_all is_digit s \<Longrightarrow> s = c # t \<Longrightarrow> c \<noteq> CHR ''-'' \<and> c \<noteq> CHR ''+''"
  by (auto simp: is_digit_def)

lemma parse_digits_point:
  assumes "list_all is_digit a" "list_all is_digit b" "a \<noteq> []"
  shows "parse_decimal (a @ ''.'' @ b) = Some \<lparr>unscaled = int (digits_val (a @ b)), scale = length b\<rparr>"
proof -
  obtain c t where a: "a = c # t" using assms(3) by (cases a) auto
  have ns: "c \<noteq> CHR ''-''" "c \<noteq> CHR ''+''"
    using digits_hd_no_sign [OF assms(1) a] by auto
  have tw: "takeWhile (\<lambda>c. c \<noteq> CHR ''.'') (a @ ''.'' @ b) = a"
    using digits_no_point [OF assms(1), of "''.'' @ b"] by simp
  have dw: "dropWhile (\<lambda>c. c \<noteq> CHR ''.'') (a @ ''.'' @ b) = ''.'' @ b"
    using digits_no_point_drop [OF assms(1), of "''.'' @ b"] by simp
  have "parse_decimal (c # t @ ''.'' @ b) = Some \<lparr>unscaled = int (digits_val (a @ b)), scale = length b\<rparr>"
    using ns tw dw assms(1,2) unfolding parse_decimal_def a by (simp add: Let_def)
  then show ?thesis by (simp add: a)
qed

lemma parse_digits:
  assumes "list_all is_digit a" "a \<noteq> []"
  shows "parse_decimal a = Some \<lparr>unscaled = int (digits_val a), scale = 0\<rparr>"
proof -
  obtain c t where a: "a = c # t" using assms(2) by (cases a) auto
  have ns: "c \<noteq> CHR ''-''" "c \<noteq> CHR ''+''"
    using digits_hd_no_sign [OF assms(1) a] by auto
  have tw: "takeWhile (\<lambda>c. c \<noteq> CHR ''.'') a = a"
    using digits_no_point [OF assms(1), of "[]"] by simp
  have dw: "dropWhile (\<lambda>c. c \<noteq> CHR ''.'') a = []"
    using digits_no_point_drop [OF assms(1), of "[]"] by simp
  have "parse_decimal (c # t) = Some \<lparr>unscaled = int (digits_val a), scale = 0\<rparr>"
    using ns tw dw assms(1) unfolding parse_decimal_def a by (simp add: Let_def)
  then show ?thesis by (simp add: a)
qed

lemma parse_minus: "parse_decimal r = Some \<lparr>unscaled = int m, scale = k\<rparr> \<Longrightarrow> r \<noteq> [] \<Longrightarrow> hd r \<noteq> CHR ''-'' \<Longrightarrow> hd r \<noteq> CHR ''+'' \<Longrightarrow>
  parse_decimal (CHR ''-'' # r) = Some \<lparr>unscaled = - int m, scale = k\<rparr>"
  by (cases r) (auto simp: parse_decimal_def Let_def split: if_splits)


lemma parse_body:
  fixes sc :: nat and m :: nat
  defines "ds \<equiv> zero_pad (Suc sc) (str_nat m)"
  defines "txt \<equiv> (if sc = 0 then ds else take (length ds - sc) ds @ ''.'' @ drop (length ds - sc) ds)"
  shows "parse_decimal txt = Some \<lparr>unscaled = int m, scale = sc\<rparr> \<and> txt \<noteq> [] \<and> is_digit (hd txt)"
proof -
  have dig: "list_all is_digit ds"
    unfolding ds_def by (rule zero_pad_digits) (rule str_nat_digits)
  have ne: "ds \<noteq> []"
    unfolding ds_def by (rule zero_pad_nonempty) (rule str_nat_nonempty)
  have len: "Suc sc \<le> length ds"
    unfolding ds_def by (rule length_zero_pad)
  have val: "digits_val ds = m"
    unfolding ds_def by (simp add: digits_val_zero_pad digits_val_str_nat)
  show ?thesis
  proof (cases "sc = 0")
    case True
    have "is_digit (hd ds)" using dig ne by (cases ds) auto
    then show ?thesis
      using True parse_digits [OF dig ne] val ne by (simp add: txt_def)
  next
    case False
    let ?a = "take (length ds - sc) ds" and ?b = "drop (length ds - sc) ds"
    have a: "list_all is_digit ?a" using dig by (auto simp: list_all_iff dest: in_set_takeD)
    have b: "list_all is_digit ?b" using dig by (auto simp: list_all_iff dest: in_set_dropD)
    have ane: "?a \<noteq> []" using len ne by auto
    have lb: "length ?b = sc" using len by auto
    have hd: "is_digit (hd (?a @ ''.'' @ ?b))" using a ane by (cases ?a) auto
    from parse_digits_point [OF a b ane] val lb False hd ane show ?thesis
      by (simp add: txt_def)
  qed
qed

lemma parse_str_decimal: "parse_decimal (str_decimal d) = Some d"
proof -
  let ?m = "nat \<bar>unscaled d\<bar>"
  let ?ds = "zero_pad (Suc (scale d)) (str_nat ?m)"
  let ?body = "(if scale d = 0 then ?ds else take (length ?ds - scale d) ?ds @ ''.'' @ drop (length ?ds - scale d) ?ds)"
  have body: "parse_decimal ?body = Some \<lparr>unscaled = int ?m, scale = scale d\<rparr>"
    and ne: "?body \<noteq> []" and hd: "is_digit (hd ?body)"
    using parse_body [of "scale d" ?m] by blast+
  have str: "str_decimal d = (if unscaled d < 0 then ''-'' else []) @ ?body"
    by (simp add: str_decimal_def Let_def)
  show ?thesis
  proof (cases "unscaled d < 0")
    case True
    have "hd ?body \<noteq> CHR ''-''" "hd ?body \<noteq> CHR ''+''"
      using hd by (auto simp: is_digit_def)
    from parse_minus [OF body ne this] True show ?thesis
      by (simp add: str)
  next
    case False
    with body show ?thesis by (simp add: str)
  qed
qed

section \<open>Serialize and deserialize\<close>

lemma deserialize_serialize:
  assumes "name P \<noteq> []" and "category P \<in> set (members C)"
  shows "deserialize C self (serialize P) =
           Inr (self\<lparr>name := name P, description := description P, price := price P,
                     available := available P, category := category P\<rparr>)"
  using assms
  by (simp add: deserialize_def serialize_def required_def field_name_def
      field_description_def field_price_def field_available_def field_category_def
      parse_str_decimal)

lemma str_decimal_fedora: "str_decimal \<lparr>unscaled = 1250, scale = 2\<rparr> = ''12.50''"
  by code_simp

text \<open>
  C1. For every product \<open>P\<close> with all its fields set and valid (a non-empty name, a
  category of the enumeration), \<open>deserialize\<close> applied to any instance with the mapping
  \<open>serialize P\<close> succeeds, and the instance it returns has the name, description,
  availability and category of \<open>P\<close> and a price of the same numeric value.
\<close>

theorem serialize_deserialize_roundtrip:
  assumes "name P \<noteq> []" and "category P \<in> set (members C)"
  shows "\<exists>q. deserialize C self (serialize P) = Inr q \<and>
             name q = name P \<and> description q = description P \<and>
             available q = available P \<and> category q = category P \<and>
             dec_value (price q) = dec_value (price P)"
  using deserialize_serialize [OF assms, of self] by simp

theorem serialize_deserialize_roundtrip_witness:
  "name fedora \<noteq> [] \<and> category fedora \<in> set (members example_Category) \<and>
   (\<exists>q. deserialize example_Category Product (serialize fedora) = Inr q \<and>
        name q = ''Fedora'' \<and> description q = ''A red hat'' \<and> available q = True \<and>
        category q = ''CLOTHS'' \<and> dec_value (price q) = 25 / 2)"
proof -
  have n: "name fedora \<noteq> []" by (simp add: fedora_def)
  have c: "category fedora \<in> set (members example_Category)"
    by (simp add: fedora_def example_Category_def)
  have v: "dec_value (price fedora) = 25 / 2"
    by (simp add: fedora_def dec_value_def)
  from serialize_deserialize_roundtrip [OF n c, of Product]
  obtain q where q: "deserialize example_Category Product (serialize fedora) = Inr q"
    and f: "name q = name fedora" "description q = description fedora"
      "available q = available fedora" "category q = category fedora"
    and p: "dec_value (price q) = dec_value (price fedora)"
    by blast
  have "dec_value (price q) = 25 / 2" by (simp only: p v)
  moreover have "name q = ''Fedora''" "description q = ''A red hat''" "available q = True"
    "category q = ''CLOTHS''"
    using f by (simp_all add: fedora_def)
  ultimately show ?thesis using n c q by blast
qed

section \<open>Validation in deserialize\<close>

lemma required_Inl: "required kv key conv = Inl e \<Longrightarrow> e = DataValidationError"
  by (auto simp: required_def split: option.splits)

lemma required_Inr:
  "required kv key conv = Inr v \<longleftrightarrow> (\<exists>j. map_of kv key = Some j \<and> conv j = Some v)"
  by (auto simp: required_def split: option.splits)

lemma deserialize_Inl: "deserialize C self D = Inl e \<Longrightarrow> e = DataValidationError"
  by (auto simp: deserialize_def split: json.splits sum.splits dest: required_Inl)

lemma deserialize_Inr:
  "deserialize C self (JObj kv) = Inr q \<longleftrightarrow>
     (\<exists>n d pr a c. required kv ''name'' field_name = Inr n \<and>
        required kv ''description'' field_description = Inr d \<and>
        required kv ''price'' field_price = Inr pr \<and>
        required kv ''available'' field_available = Inr a \<and>
        required kv ''category'' (field_category C) = Inr c \<and>
        q = self\<lparr>name := n, description := d, price := pr, available := a, category := c\<rparr>)"
  by (auto simp: deserialize_def split: sum.splits)

lemma deserialize_not_mapping: "not_a_mapping D \<Longrightarrow> deserialize C self D = Inl DataValidationError"
  by (cases D) (simp_all add: not_a_mapping_def deserialize_def)

lemma field_available_Some: "field_available j = Some a \<longleftrightarrow> j = JBool a"
  by (cases j) (simp_all add: field_available_def)

lemma field_category_Some: "field_category C j = Some c \<longleftrightarrow> j = JStr c \<and> c \<in> set (members C)"
  by (cases j) (auto simp: field_category_def)

lemma field_name_Some: "field_name j = Some n \<longleftrightarrow> j = JStr n \<and> n \<noteq> []"
  by (cases j) (auto simp: field_name_def)

lemma field_description_Some: "field_description j = Some d \<longleftrightarrow> j = JStr d"
  by (cases j) (auto simp: field_description_def)

lemma deserialize_succeeds_iff:
  assumes "text_and_price_typed (JObj kv)"
  shows "(\<exists>q. deserialize C self (JObj kv) = Inr q) \<longleftrightarrow> \<not> invalid_payload C (JObj kv)"
proof
  assume "\<exists>q. deserialize C self (JObj kv) = Inr q"
  then show "\<not> invalid_payload C (JObj kv)"
    by (auto simp: deserialize_Inr required_Inr invalid_payload_def not_a_mapping_def
        key_missing_def available_not_boolean_def category_unknown_def
        field_available_Some field_category_Some)
next
  assume v: "\<not> invalid_payload C (JObj kv)"
  from v obtain jn jd jp ja jc where k: "map_of kv ''name'' = Some jn"
    "map_of kv ''description'' = Some jd" "map_of kv ''price'' = Some jp"
    "map_of kv ''available'' = Some ja" "map_of kv ''category'' = Some jc"
    by (auto simp: invalid_payload_def key_missing_def)
  from assms k obtain n d pr where t: "field_name jn = Some n" "field_description jd = Some d"
    "field_price jp = Some pr"
    by (auto simp: text_and_price_typed_def typed_where_present_def)
  from v k obtain a where a: "field_available ja = Some a"
    by (cases ja) (auto simp: invalid_payload_def available_not_boolean_def field_available_def)
  from v k obtain c where c: "field_category C jc = Some c"
    by (cases jc) (auto simp: invalid_payload_def category_unknown_def field_category_def)
  show "\<exists>q. deserialize C self (JObj kv) = Inr q"
    using k t a c by (simp add: deserialize_Inr required_Inr)
qed

lemma fedora_payload_typed: "text_and_price_typed (fedora_payload (JFloat n k) av)"
  by (simp add: fedora_payload_def text_and_price_typed_def typed_where_present_def
      field_name_def field_description_def field_price_def)

text \<open>
  C2, as amended. For every payload \<open>D\<close> whose \<open>name\<close>, \<open>description\<close> and \<open>price\<close>, where
  present, have the type of their field: \<open>deserialize\<close> fails with a validation error if
  and only if \<open>D\<close> is not a mapping, or a required key is missing, or \<open>available\<close> is
  present but not a boolean (the string \<open>true\<close> is rejected), or \<open>category\<close> is not the
  name of a member of the enumeration; otherwise it returns the instance, its \<open>id'\<close> kept
  and its five fields set from \<open>D\<close>.
\<close>

theorem deserialize_validation:
  assumes "text_and_price_typed D"
  shows "(deserialize C self D = Inl DataValidationError \<longleftrightarrow> invalid_payload C D) \<and>
         (\<not> invalid_payload C D \<longrightarrow>
            (\<exists>q. deserialize C self D = Inr q \<and> id' q = id' self \<and>
                 payload_get D ''name'' = Some (JStr (name q)) \<and>
                 payload_get D ''description'' = Some (JStr (description q)) \<and>
                 Option.bind (payload_get D ''price'') field_price = Some (price q) \<and>
                 payload_get D ''available'' = Some (JBool (available q)) \<and>
                 payload_get D ''category'' = Some (JStr (category q))))"
proof (cases "not_a_mapping D")
  case True
  then show ?thesis
    by (simp add: deserialize_not_mapping invalid_payload_def)
next
  case False
  then obtain kv where D: "D = JObj kv"
    by (cases D) (simp_all add: not_a_mapping_def)
  have iff: "(\<exists>q. deserialize C self D = Inr q) \<longleftrightarrow> \<not> invalid_payload C D"
    using assms unfolding D by (rule deserialize_succeeds_iff)
  have fails: "deserialize C self D = Inl DataValidationError \<longleftrightarrow> invalid_payload C D"
  proof (cases "deserialize C self D")
    case (Inl e)
    with iff deserialize_Inl [OF Inl] show ?thesis by simp
  next
    case (Inr q)
    with iff show ?thesis by auto
  qed
  have fields: "id' q = id' self \<and>
      payload_get D ''name'' = Some (JStr (name q)) \<and>
      payload_get D ''description'' = Some (JStr (description q)) \<and>
      Option.bind (payload_get D ''price'') field_price = Some (price q) \<and>
      payload_get D ''available'' = Some (JBool (available q)) \<and>
      payload_get D ''category'' = Some (JStr (category q))"
    if "deserialize C self D = Inr q" for q
    using that unfolding D
    by (auto simp: deserialize_Inr required_Inr payload_get_def field_available_Some
        field_category_Some field_name_Some field_description_Some)
  from iff fails fields show ?thesis by blast
qed

theorem deserialize_validation_witness:
  "text_and_price_typed (fedora_payload (JFloat 25 1) (JBool True)) \<and>
   \<not> invalid_payload example_Category
        (fedora_payload (JFloat 25 1) (JBool True)) \<and>
   (\<exists>q. deserialize example_Category Product
          (fedora_payload (JFloat 25 1) (JBool True)) = Inr q \<and>
        id' q = None \<and> available q = True) \<and>
   text_and_price_typed (fedora_payload (JFloat 25 1) (JStr ''true'')) \<and>
   invalid_payload example_Category
        (fedora_payload (JFloat 25 1) (JStr ''true'')) \<and>
   deserialize example_Category Product
        (fedora_payload (JFloat 25 1) (JStr ''true'')) =
     Inl DataValidationError"
proof -
  let ?good = "fedora_payload (JFloat 25 1) (JBool True)"
  let ?bad = "fedora_payload (JFloat 25 1) (JStr ''true'')"
  have g: "\<not> invalid_payload example_Category ?good"
    by (simp add: fedora_payload_def invalid_payload_def not_a_mapping_def key_missing_def
        available_not_boolean_def category_unknown_def example_Category_def)
  have b: "invalid_payload example_Category ?bad"
    by (simp add: fedora_payload_def invalid_payload_def available_not_boolean_def)
  from deserialize_validation [OF fedora_payload_typed, of example_Category Product _ _ "JBool True"] g
  obtain q where "deserialize example_Category Product ?good = Inr q" "id' q = id' Product"
    "payload_get ?good ''available'' = Some (JBool (available q))"
    by blast
  then have "\<exists>q. deserialize example_Category Product ?good = Inr q \<and> id' q = None \<and>
      available q = True"
    by (auto simp: Product_def payload_get_def fedora_payload_def)
  moreover from deserialize_validation [OF fedora_payload_typed, of example_Category Product _ _ "JStr ''true''"] b
  have "deserialize example_Category Product ?bad = Inl DataValidationError"
    by blast
  ultimately show ?thesis using g b fedora_payload_typed by blast
qed

text \<open>
  C2 as stated fails: a payload with every key, a boolean \<open>available\<close>, a known
  \<open>category\<close> and a \<open>null\<close> price is none of the four cases, and it is rejected with a
  validation error.
\<close>

theorem deserialize_validation_counterexample:
  "deserialize example_Category Product (fedora_payload JNull (JBool True)) = Inl DataValidationError \<and>
   \<not> invalid_payload example_Category (fedora_payload JNull (JBool True))"
  by (simp add: fedora_payload_def deserialize_def required_def field_name_def
      field_description_def field_price_def invalid_payload_def not_a_mapping_def
      key_missing_def available_not_boolean_def category_unknown_def example_Category_def)

section \<open>Routing, query strings and the handlers\<close>

lemma handle_dispatch:
  "dispatch C rows req = (rows', r) \<Longrightarrow>
   handle C rows req = (rows', case r of Inl e \<Rightarrow> error_response e | Inr resp \<Rightarrow> resp)"
  by (cases r) (simp_all add: handle_def)

lemma dispatch_list:
  "meth req = GET \<Longrightarrow> path req = [''products''] \<Longrightarrow>
   dispatch C rows req = (rows, list_all_products C rows req)"
  by (simp add: dispatch_def)

lemma dispatch_create:
  "meth req = POST \<Longrightarrow> path req = [''products''] \<Longrightarrow>
   dispatch C rows req = create_products C rows req"
  by (simp add: dispatch_def)

lemma dispatch_get:
  "meth req = GET \<Longrightarrow> path req = [''products'', pid] \<Longrightarrow>
   dispatch C rows req = (rows, get_products rows pid)"
  by (simp add: dispatch_def)

lemma dispatch_update:
  "meth req = PUT \<Longrightarrow> path req = [''products'', pid] \<Longrightarrow>
   dispatch C rows req = update_products C rows req pid"
  by (simp add: dispatch_def)

lemma dispatch_delete:
  "meth req = DELETE \<Longrightarrow> path req = [''products'', pid] \<Longrightarrow>
   dispatch C rows req = delete_products rows pid"
  by (simp add: dispatch_def)

lemma lower_words:
  "lower ''name'' = ''name''" "lower ''category'' = ''category''"
  "lower ''available'' = ''available''" "lower ''Name'' = ''name''"
  "lower ''True'' = ''true''" "lower ''goaway'' = ''goaway''"
  by code_simp+

lemma lower_Nil_iff: "lower k = [] \<longleftrightarrow> k = []"
  by (simp add: lower_def)

lemma len_args_card: "len_args a = card (fst ` set a)"
  by (simp add: len_args_def length_remdups_card_conv)

lemma len_args_single: "len_args [(k, v)] = 1"
  by (simp add: len_args_def)

lemma len_args_Nil: "len_args [] = 0"
  by (simp add: len_args_def)

lemma list_many_keys:
  "2 \<le> card (fst ` set (args req)) \<Longrightarrow> list_all_products C rows req = Inl (HTTPException 400)"
  by (simp add: list_all_products_def len_args_card)

lemma list_unknown_key:
  "args req = [(k, v)] \<Longrightarrow> k \<noteq> [] \<Longrightarrow> lower k \<notin> set [''name'', ''category'', ''available''] \<Longrightarrow>
   list_all_products C rows req = Inl (HTTPException 400)"
  by (simp add: list_all_products_def len_args_single lower_Nil_iff)

lemma list_no_args:
  "args req = [] \<Longrightarrow> list_all_products C rows req = Inr (jsonify (JArr (map serialize rows)) 200)"
  by (simp add: list_all_products_def len_args_Nil Product_all_def)

lemma list_by_name:
  "args req = [(k, v)] \<Longrightarrow> lower k = ''name'' \<Longrightarrow>
   list_all_products C rows req = Inr (jsonify (JArr (map serialize (find_by_name rows v))) 200)"
  by (simp add: list_all_products_def len_args_single)

lemma list_by_category:
  "args req = [(k, v)] \<Longrightarrow> lower k = ''category'' \<Longrightarrow>
   list_all_products C rows req =
     (case getattr_Category C v of
        None \<Rightarrow> Inl (HTTPException 400)
      | Some c \<Rightarrow> Inr (jsonify (JArr (map serialize (find_by_category rows c))) 200))"
  by (simp add: list_all_products_def len_args_single split: option.splits)

lemma list_by_available:
  "args req = [(k, v)] \<Longrightarrow> lower k = ''available'' \<Longrightarrow>
   list_all_products C rows req =
     Inr (jsonify (JArr (map serialize (find_by_availability rows (lower v = ''true'')))) 200)"
  by (simp add: list_all_products_def len_args_single)

lemma list_products_by_category_member:
  assumes "meth req = GET" and "path req = [''products'']" and "args req = [(''category'', v)]"
    and "v \<in> set (members C)"
  shows "handle C rows req =
           (rows, jsonify (JArr (map serialize (filter (\<lambda>p. category p = v) rows))) 200)"
  using handle_dispatch [OF dispatch_list [OF assms(1,2)], of C rows]
    list_by_category [OF assms(3) lower_words(2), of C rows] assms(4)
  by (simp add: getattr_Category_def find_by_category_def)

lemma list_products_by_category_no_attribute:
  assumes "meth req = GET" and "path req = [''products'']" and "args req = [(''category'', v)]"
    and "v \<notin> set (members C)" and "v \<notin> set (other_attrs C)"
  shows "handle C rows req = (rows, error_response (HTTPException 400))"
  using handle_dispatch [OF dispatch_list [OF assms(1,2)], of C rows]
    list_by_category [OF assms(3) lower_words(2), of C rows] assms(4,5)
  by (simp add: getattr_Category_def)

lemma create_products_415:
  "content_type req \<noteq> Some ''application/json'' \<Longrightarrow>
   create_products C rows req = (rows, Inl (HTTPException 415))"
  by (auto simp: create_products_def check_content_type_def split: option.splits)

lemma update_products_415:
  "content_type req \<noteq> Some ''application/json'' \<Longrightarrow>
   update_products C rows req pid = (rows, Inl (HTTPException 415))"
  by (auto simp: update_products_def check_content_type_def split: option.splits)

lemma update_products_404:
  "content_type req = Some ''application/json'' \<Longrightarrow> json_body req = Some data \<Longrightarrow>
   Product_find rows pid = None \<Longrightarrow>
   update_products C rows req pid = (rows, Inl (HTTPException 404))"
  by (simp add: update_products_def check_content_type_def get_json_def)

lemma nat_of_str_examples: "nat_of_str ''1'' = Some 1" "nat_of_str ''2'' = Some 2"
  "nat_of_str ''666'' = Some 666"
  by code_simp+

lemma fold_max_ge: "x \<in> set xs \<Longrightarrow> x \<le> fold max xs (a::nat)"
proof (induction xs arbitrary: a)
  case Nil
  then show ?case by simp
next
  case (Cons y ys)
  have mono: "b \<le> fold max ys b" for b :: nat
    by (induction ys arbitrary: b) (auto intro: order_trans [OF max.cobounded2])
  show ?case
  proof (cases "x = y")
    case True
    have "y \<le> max y a" by simp
    also have "\<dots> \<le> fold max ys (max y a)" by (rule mono)
    finally show ?thesis using True by simp
  next
    case False
    with Cons show ?thesis by simp
  qed
qed

lemma fresh_id_fresh: "q \<in> set rows \<Longrightarrow> id' q \<noteq> Some (fresh_id rows)"
proof
  assume q: "q \<in> set rows" and i: "id' q = Some (fresh_id rows)"
  from q have "(case id' q of None \<Rightarrow> 0 | Some n \<Rightarrow> n)
      \<in> set (map (\<lambda>p. case id' p of None \<Rightarrow> 0 | Some n \<Rightarrow> n) rows)"
    by simp
  from fold_max_ge [OF this, of 0] i show False
    by (simp add: fresh_id_def)
qed

lemma find_append_none: "\<forall>q\<in>set xs. \<not> P q \<Longrightarrow> List.find P (xs @ ys) = List.find P ys"
  by (induction xs) auto

lemma Product_find_created:
  assumes "id' c = Some (fresh_id rows)"
  shows "Product_find (rows @ [c]) (str_nat (fresh_id rows)) = Some c"
proof -
  have "\<forall>q\<in>set rows. \<not> id' q = Some (fresh_id rows)"
    using fresh_id_fresh by blast
  from find_append_none [OF this, of "[c]"] assms show ?thesis
    by (simp add: Product_find_def nat_of_str_str_nat)
qed

lemma create_products_201:
  assumes "content_type req = Some ''application/json''" and "json_body req = Some data"
    and "deserialize C Product data = Inr p"
  shows "create_products C rows req =
           (rows @ [p\<lparr>id' := Some (fresh_id rows)\<rparr>],
            Inr \<lparr>status = 201, body = JsonBody (serialize (p\<lparr>id' := Some (fresh_id rows)\<rparr>)),
                 location = Some (url_for_get_products (fresh_id rows))\<rparr>)"
  using assms
  by (simp add: create_products_def check_content_type_def get_json_def Product_create_def
      Let_def jsonify_def)

lemma create_products_cases:
  "create_products C rows req = (rows, Inl (HTTPException 415)) \<or>
   create_products C rows req = (rows, Inl (HTTPException 400)) \<or>
   create_products C rows req = (rows, Inl DataValidationError) \<or>
   (\<exists>rows' resp. create_products C rows req = (rows', Inr resp) \<and> status resp = 201)"
proof (cases "content_type req = Some ''application/json''")
  case False
  then show ?thesis by (simp add: create_products_415)
next
  case ct: True
  show ?thesis
  proof (cases "json_body req")
    case None
    with ct show ?thesis
      by (simp add: create_products_def check_content_type_def get_json_def)
  next
    case (Some data)
    show ?thesis
    proof (cases "deserialize C Product data")
      case (Inl e)
      with ct Some deserialize_Inl [OF Inl] show ?thesis
        by (simp add: create_products_def check_content_type_def get_json_def)
    next
      case (Inr p)
      from create_products_201 [OF ct Some Inr] show ?thesis by simp
    qed
  qed
qed

lemma deserialize_fedora_payload:
  "deserialize example_Category self (fedora_payload (JFloat n k) (JBool a)) =
     Inr (self\<lparr>name := ''Fedora'', description := ''A red hat'',
               price := decimal_of_float n k, available := a,
               category := ''CLOTHS''\<rparr>)"
  by (simp add: fedora_payload_def deserialize_def required_def field_name_def
      field_description_def field_price_def field_available_def field_category_def
      example_Category_def)

lemma deserialize_fedora_payload_string:
  "deserialize example_Category self (fedora_payload (JFloat n k) (JStr s)) = Inl DataValidationError"
  by (simp add: fedora_payload_def deserialize_def required_def field_name_def
      field_description_def field_price_def field_available_def)

lemma fresh_id_example_store: "fresh_id example_store = 3"
  by (simp add: fresh_id_def example_store_def fedora_row_def sold_out_row_def fedora_def)

lemma str_nat_3: "str_nat 3 = ''3''"
  by code_simp

lemma lowest_terms_value:
  "lowest_terms n k = (m, j) \<Longrightarrow> (of_int m / 2 ^ j :: rat) = of_int n / 2 ^ k"
proof (induction k arbitrary: n)
  case 0
  then show ?case by simp
next
  case (Suc k)
  show ?case
  proof (cases "even n")
    case True
    then obtain h where h: "n = 2 * h" by (auto elim: evenE)
    with Suc.prems True have "lowest_terms h k = (m, j)" by simp
    from Suc.IH [OF this] h show ?thesis by simp
  next
    case False
    with Suc.prems show ?thesis by simp
  qed
qed

lemma dec_value_decimal_of_float: "dec_value (decimal_of_float n k) = of_int n / 2 ^ k"
proof -
  obtain m j where l: "lowest_terms n k = (m, j)" by (cases "lowest_terms n k")
  have "(of_int (m * 5 ^ j) / 10 ^ j :: rat) = of_int m / 2 ^ j"
  proof -
    have "(10::rat) ^ j = 2 ^ j * 5 ^ j"
      by (simp add: power_mult_distrib [symmetric])
    then show ?thesis by simp
  qed
  with lowest_terms_value [OF l] show ?thesis
    by (simp add: dec_value_def decimal_of_float_def l)
qed

lemma decimal_of_float_example:
  "decimal_of_float 25 (Suc 0) = \<lparr>unscaled = 125, scale = Suc 0\<rparr>"
  by (simp add: decimal_of_float_def)

lemma str_nat_125: "str_nat 125 = ''125''"
  by code_simp

lemma str_decimal_posted: "str_decimal \<lparr>unscaled = 125, scale = Suc 0\<rparr> = ''12.5''"
  by (simp add: str_decimal_def zero_pad_def str_nat_125 Let_def)

lemma deserialize_fedora:
  "deserialize example_Category Product (fedora_payload (JFloat 25 1) (JBool True)) =
     Inr posted_fedora"
  by (simp add: deserialize_fedora_payload decimal_of_float_example Product_def fedora_def
      posted_fedora_def)

lemma serialize_fedora_3: "serialize (posted_fedora\<lparr>id' := Some 3\<rparr>) = JObj
     [(''id'', JInt 3), (''name'', JStr ''Fedora''),
      (''description'', JStr ''A red hat''), (''price'', JStr ''12.5''),
      (''available'', JBool True), (''category'', JStr ''CLOTHS'')]"
  by (simp add: serialize_def fedora_def posted_fedora_def str_decimal_posted)

lemma deserialize_float_price:
  assumes "deserialize C self data = Inr p" and "payload_get data ''price'' = Some (JFloat n k)"
  shows "price p = decimal_of_float n k"
proof -
  from assms(2) obtain kv where d: "data = JObj kv"
    by (cases data) (simp_all add: payload_get_def)
  from assms show ?thesis
    unfolding d by (auto simp: deserialize_Inr required_Inr payload_get_def field_price_def)
qed

section \<open>Listing products\<close>

text \<open>
  C3, as amended. For every \<open>GET /products\<close> request: if the query string has two or
  more different keys the response is 400; if it is one parameter whose key is not empty
  and, in lower case, is none of \<open>name\<close>, \<open>category\<close>, \<open>available\<close>, the response is
  400; if there is no query parameter the response is 200 with every product. The table
  is unchanged.
\<close>

theorem list_products_query_parameters:
  assumes "meth req = GET" and "path req = [''products'']"
  shows "(2 \<le> card (fst ` set (args req)) \<longrightarrow>
            handle C rows req = (rows, error_response (HTTPException 400))) \<and>
         (\<forall>k v. args req = [(k, v)] \<and> k \<noteq> [] \<and>
                lower k \<notin> set [''name'', ''category'', ''available''] \<longrightarrow>
            handle C rows req = (rows, error_response (HTTPException 400))) \<and>
         (args req = [] \<longrightarrow>
            handle C rows req = (rows, jsonify (JArr (map serialize rows)) 200))"
proof -
  note d = handle_dispatch [OF dispatch_list [OF assms]]
  have "handle C rows req = (rows, error_response (HTTPException 400))"
    if "2 \<le> card (fst ` set (args req))"
    using d [of C rows] list_many_keys [OF that, of C rows] by simp
  moreover have "handle C rows req = (rows, error_response (HTTPException 400))"
    if "args req = [(k, v)]" "k \<noteq> []" "lower k \<notin> set [''name'', ''category'', ''available'']"
    for k v
    using d [of C rows] list_unknown_key [OF that, of C rows] by simp
  moreover have "handle C rows req = (rows, jsonify (JArr (map serialize rows)) 200)"
    if "args req = []"
    using d [of C rows] list_no_args [OF that, of C rows] by simp
  ultimately show ?thesis by blast
qed

theorem list_products_query_parameters_witness:
  "meth (list_request [(''name'', ''hello''), (''availability'', ''false'')]) = GET \<and>
   path (list_request [(''name'', ''hello''), (''availability'', ''false'')]) = [''products''] \<and>
   2 \<le> card (fst ` set (args (list_request [(''name'', ''hello''), (''availability'', ''false'')]))) \<and>
   handle example_Category example_store
     (list_request [(''name'', ''hello''), (''availability'', ''false'')]) =
     (example_store, error_response (HTTPException 400)) \<and>
   args (list_request [(''goaway'', ''no'')]) = [(''goaway'', ''no'')] \<and>
   lower ''goaway'' \<notin> set [''name'', ''category'', ''available''] \<and>
   handle example_Category example_store (list_request [(''goaway'', ''no'')]) =
     (example_store, error_response (HTTPException 400)) \<and>
   args (list_request []) = [] \<and>
   handle example_Category example_store (list_request []) =
     (example_store, jsonify (JArr (map serialize example_store)) 200)"
proof -
  let ?two = "list_request [(''name'', ''hello''), (''availability'', ''false'')]"
  let ?one = "list_request [(''goaway'', ''no'')]"
  let ?none = "list_request []"
  have m: "meth (list_request q) = GET" and p: "path (list_request q) = [''products'']"
    and a: "args (list_request q) = q" for q
    by (simp_all add: list_request_def)
  have c: "2 \<le> card (fst ` set (args ?two))"
    by (simp add: a)
  have g: "lower ''goaway'' \<notin> set [''name'', ''category'', ''available'']"
    by (simp add: lower_words)
  from list_products_query_parameters [OF m p, of _ example_Category "example_store"]
  have "handle example_Category example_store ?two = (example_store, error_response (HTTPException 400))"
    and "handle example_Category example_store ?one = (example_store, error_response (HTTPException 400))"
    and "handle example_Category example_store ?none = (example_store, jsonify (JArr (map serialize example_store)) 200)"
    using c g a by auto
  then show ?thesis using m p a c g by simp
qed

text \<open>
  C3 as stated fails: the handler lowers the key before it looks it up, so the key
  \<open>Name\<close>, which is not in the allowed set, is answered with 200.
\<close>

theorem list_products_query_parameters_counterexample:
  "''Name'' \<notin> set [''name'', ''category'', ''available''] \<and>
   args (list_request [(''Name'', ''x'')]) = [(''Name'', ''x'')] \<and>
   status (snd (handle example_Category [] (list_request [(''Name'', ''x'')]))) = 200"
proof -
  have "list_all_products example_Category [] (list_request [(''Name'', ''x'')]) =
      Inr (jsonify (JArr (map serialize (find_by_name [] ''x''))) 200)"
    by (rule list_by_name [where k = "''Name''"]) (simp_all add: list_request_def lower_words)
  then have "handle example_Category [] (list_request [(''Name'', ''x'')]) =
      ([], jsonify (JArr (map serialize (find_by_name [] ''x''))) 200)"
    using handle_dispatch [OF dispatch_list, of "list_request [(''Name'', ''x'')]" example_Category "[]"]
    by (simp add: list_request_def)
  then show ?thesis by (simp add: jsonify_def list_request_def)
qed

text \<open>
  C4 at \<open>GET /products?category=__doc__\<close>: \<open>__doc__\<close> is not the name of a member, but
  \<open>getattr\<close> finds the attribute on the class, no \<open>AttributeError\<close> is raised and the
  handler does not abort with 400; the query is made with a value that is no member and
  matches no product.
\<close>

theorem list_products_category_class_attribute:
  "''__doc__'' \<notin> set (members example_Category) \<and>
   handle example_Category example_store (list_request [(''category'', ''__doc__'')]) =
     (example_store, jsonify (JArr []) 200)"
proof -
  have m: "meth (list_request q) = GET" and p: "path (list_request q) = [''products'']"
    and a: "args (list_request q) = q" for q
    by (simp_all add: list_request_def)
  have g: "getattr_Category example_Category ''__doc__'' = Some (Attr ''__doc__'')"
    by (simp add: getattr_Category_def example_Category_def)
  show ?thesis
    using handle_dispatch [OF dispatch_list [OF m p], of example_Category example_store]
      list_by_category [OF a lower_words(2), where v = "''__doc__''" and C = example_Category
        and rows = example_store] g
    by (simp add: find_by_category_def example_Category_def)
qed

text \<open>
  C5. For every \<open>GET /products\<close> request with the single query parameter
  \<open>available=v\<close>, the response is 200 with exactly the products whose \<open>available\<close>
  field equals the boolean that is true when \<open>v\<close> in lower case is \<open>true\<close> and false for
  any other \<open>v\<close>.
\<close>

theorem list_products_by_availability:
  assumes "meth req = GET" and "path req = [''products'']" and "args req = [(''available'', v)]"
  shows "handle C rows req =
           (rows, jsonify (JArr (map serialize
                     (filter (\<lambda>p. available p = (lower v = ''true'')) rows))) 200)"
  using handle_dispatch [OF dispatch_list [OF assms(1,2)], of C rows]
    list_by_available [OF assms(3) lower_words(3), of C rows]
  by (simp add: find_by_availability_def)

theorem list_products_by_availability_witness:
  "meth (list_request [(''available'', ''True'')]) = GET \<and>
   path (list_request [(''available'', ''True'')]) = [''products''] \<and>
   args (list_request [(''available'', ''True'')]) = [(''available'', ''True'')] \<and>
   handle example_Category example_store (list_request [(''available'', ''True'')]) =
     (example_store, jsonify (JArr [serialize fedora_row]) 200) \<and>
   handle example_Category example_store (list_request [(''available'', ''no'')]) =
     (example_store, jsonify (JArr [serialize sold_out_row]) 200)"
proof -
  have m: "meth (list_request q) = GET" and p: "path (list_request q) = [''products'']"
    and a: "args (list_request q) = q" for q
    by (simp_all add: list_request_def)
  have n: "lower ''no'' \<noteq> ''true''" by code_simp
  have "handle example_Category example_store (list_request [(''available'', ''True'')]) =
      (example_store, jsonify (JArr [serialize fedora_row]) 200)"
    using list_products_by_availability [OF m p a, where v = "''True''" and C = example_Category and rows = example_store]
    by (simp add: lower_words example_store_def fedora_row_def fedora_def sold_out_row_def)
  moreover have "handle example_Category example_store (list_request [(''available'', ''no'')]) =
      (example_store, jsonify (JArr [serialize sold_out_row]) 200)"
    using list_products_by_availability [OF m p a, where v = "''no''" and C = example_Category and rows = example_store] n
    by (simp add: example_store_def fedora_row_def fedora_def sold_out_row_def)
  ultimately show ?thesis using m p a by simp
qed

section \<open>Creating a product\<close>

text \<open>
  C6, as amended. For every \<open>POST /products\<close> request with Content-Type
  \<open>application/json\<close> and a body that deserializes to a product \<open>p\<close>: the response is
  201; its body is the serialized created product, whose \<open>id\<close> is the one the table
  assigned and whose \<open>price\<close> is the string form of the price, which for a price received
  as a float is the exact decimal of that float (the input \<open>12.50\<close> is received as the
  float \<open>12.5\<close> and rendered \<open>12.5\<close>); and its Location header is a URL on which every
  \<open>GET\<close> returns 200 with the same body.
\<close>

theorem create_product_created:
  fixes p :: product and rows :: store
  defines "created \<equiv> p\<lparr>id' := Some (fresh_id rows)\<rparr>"
  assumes "meth req = POST" and "path req = [''products'']"
    and "content_type req = Some ''application/json''" and "json_body req = Some data"
    and "deserialize C Product data = Inr p"
  shows "handle C rows req =
           (rows @ [created],
            \<lparr>status = 201, body = JsonBody (serialize created),
             location = Some (url_for_get_products (fresh_id rows))\<rparr>) \<and>
         payload_get (serialize created) ''id'' =
           Some (JInt (int (fresh_id rows))) \<and>
         payload_get (serialize created) ''price'' = Some (JStr (str_decimal (price p))) \<and>
         (\<forall>n k. payload_get data ''price'' = Some (JFloat n k) \<longrightarrow>
            payload_get (serialize created) ''price'' =
              Some (JStr (str_decimal (decimal_of_float n k)))) \<and>
         (\<forall>get. meth get = GET \<and> path get = url_for_get_products (fresh_id rows) \<longrightarrow>
            handle C (rows @ [created]) get =
              (rows @ [created],
               \<lparr>status = 200, body = JsonBody (serialize created), location = None\<rparr>))"
proof -
  have "handle C rows req =
      (rows @ [created],
       \<lparr>status = 201, body = JsonBody (serialize created),
        location = Some (url_for_get_products (fresh_id rows))\<rparr>)"
    using create_products_201 [OF assms(4-6), of rows] dispatch_create [OF assms(2,3), of C rows]
    by (simp add: handle_def created_def)
  moreover have "payload_get (serialize created) ''id'' =
      Some (JInt (int (fresh_id rows)))"
    by (simp add: payload_get_def serialize_def created_def)
  moreover have pr: "payload_get (serialize created) ''price'' = Some (JStr (str_decimal (price p)))"
    by (simp add: payload_get_def serialize_def created_def)
  moreover have "payload_get (serialize created) ''price'' =
      Some (JStr (str_decimal (decimal_of_float n k)))"
    if "payload_get data ''price'' = Some (JFloat n k)" for n k
    using deserialize_float_price [OF assms(6) that] pr by simp
  moreover have "handle C (rows @ [created]) get =
      (rows @ [created], \<lparr>status = 200, body = JsonBody (serialize created), location = None\<rparr>)"
    if "meth get = GET" "path get = url_for_get_products (fresh_id rows)" for get
  proof -
    have "Product_find (rows @ [created]) (str_nat (fresh_id rows)) = Some created"
      by (rule Product_find_created) (simp add: created_def)
    then have "get_products (rows @ [created]) (str_nat (fresh_id rows)) =
        Inr (jsonify (serialize created) 200)"
      by (simp add: get_products_def)
    with dispatch_get [OF that(1), of "str_nat (fresh_id rows)" C "rows @ [created]"] that(2)
    show ?thesis
      by (simp add: handle_def url_for_get_products_def jsonify_def)
  qed
  ultimately show ?thesis by blast
qed

theorem create_product_created_witness:
  "meth (create_request (Some ''application/json'')
      (Some (fedora_payload (JFloat 25 1) (JBool True)))) = POST \<and>
   content_type (create_request (Some ''application/json'')
      (Some (fedora_payload (JFloat 25 1) (JBool True)))) = Some ''application/json'' \<and>
   deserialize example_Category Product (fedora_payload (JFloat 25 1) (JBool True)) =
     Inr posted_fedora \<and>
   payload_get (fedora_payload (JFloat 25 1) (JBool True)) ''price'' = Some (JFloat 25 1) \<and>
   handle example_Category example_store
     (create_request (Some ''application/json'')
        (Some (fedora_payload (JFloat 25 1) (JBool True)))) =
     (example_store @ [posted_fedora\<lparr>id' := Some 3\<rparr>],
      \<lparr>status = 201,
       body = JsonBody (JObj
         [(''id'', JInt 3), (''name'', JStr ''Fedora''),
          (''description'', JStr ''A red hat''), (''price'', JStr ''12.5''),
          (''available'', JBool True), (''category'', JStr ''CLOTHS'')]),
       location = Some [''products'', ''3'']\<rparr>) \<and>
   payload_get (serialize (posted_fedora\<lparr>id' := Some 3\<rparr>)) ''price'' =
     Some (JStr (str_decimal (decimal_of_float 25 1))) \<and>
   meth (product_request GET ''3'' None None) = GET \<and>
   path (product_request GET ''3'' None None) = [''products'', ''3''] \<and>
   handle example_Category (example_store @ [posted_fedora\<lparr>id' := Some 3\<rparr>])
     (product_request GET ''3'' None None) =
     (example_store @ [posted_fedora\<lparr>id' := Some 3\<rparr>],
      \<lparr>status = 200,
       body = JsonBody (JObj
         [(''id'', JInt 3), (''name'', JStr ''Fedora''),
          (''description'', JStr ''A red hat''), (''price'', JStr ''12.5''),
          (''available'', JBool True), (''category'', JStr ''CLOTHS'')]),
       location = None\<rparr>)"
proof -
  let ?post = "create_request (Some ''application/json'')
      (Some (fedora_payload (JFloat 25 1) (JBool True)))"
  let ?get = "product_request GET ''3'' None None"
  have m: "meth ?post = POST" and p: "path ?post = [''products'']"
    and c: "content_type ?post = Some ''application/json''"
    and j: "json_body ?post = Some (fedora_payload (JFloat 25 1) (JBool True))"
    by (simp_all add: create_request_def)
  have g: "meth ?get = GET" and l: "path ?get = [''products'', ''3'']"
    by (simp_all add: product_request_def)
  have f: "payload_get (fedora_payload (JFloat 25 1) (JBool True)) ''price'' = Some (JFloat 25 1)"
    by (simp add: payload_get_def fedora_payload_def)
  have u: "url_for_get_products 3 = [''products'', ''3'']"
    by (simp add: url_for_get_products_def str_nat_3)
  note t = create_product_created [OF m p c j deserialize_fedora, of example_store]
  from t have "handle example_Category example_store ?post =
      (example_store @ [posted_fedora\<lparr>id' := Some 3\<rparr>],
       \<lparr>status = 201, body = JsonBody (serialize (posted_fedora\<lparr>id' := Some 3\<rparr>)),
        location = Some [''products'', ''3'']\<rparr>)"
    by (simp add: u fresh_id_example_store)
  moreover have "payload_get (serialize (posted_fedora\<lparr>id' := Some 3\<rparr>)) ''price'' =
      Some (JStr (str_decimal (decimal_of_float 25 1)))"
  proof -
    from t have "payload_get (fedora_payload (JFloat 25 1) (JBool True)) ''price'' =
        Some (JFloat 25 1) \<longrightarrow>
      payload_get (serialize (posted_fedora\<lparr>id' := Some (fresh_id example_store)\<rparr>)) ''price'' =
        Some (JStr (str_decimal (decimal_of_float 25 1)))"
      by blast
    with f show ?thesis by (simp add: fresh_id_example_store)
  qed
  moreover from t g l have "handle example_Category
      (example_store @ [posted_fedora\<lparr>id' := Some 3\<rparr>]) ?get =
      (example_store @ [posted_fedora\<lparr>id' := Some 3\<rparr>],
       \<lparr>status = 200, body = JsonBody (serialize (posted_fedora\<lparr>id' := Some 3\<rparr>)),
        location = None\<rparr>)"
    by (simp add: u fresh_id_example_store)
  ultimately show ?thesis
    using m c g l f deserialize_fedora by (simp add: serialize_fedora_3)
qed

text \<open>
  C6 as stated fails on its own example: \<open>request.get_json()\<close> reads the number \<open>12.50\<close>
  as the float \<open>12.5\<close>, and the created product is serialized with the price \<open>12.5\<close>, not
  \<open>12.50\<close>.
\<close>

theorem create_product_price_counterexample:
  "handle example_Category example_store
     (create_request (Some ''application/json'')
        (Some (fedora_payload (JFloat 25 1) (JBool True)))) =
     (example_store @ [posted_fedora\<lparr>id' := Some 3\<rparr>],
      \<lparr>status = 201,
       body = JsonBody (JObj
         [(''id'', JInt 3), (''name'', JStr ''Fedora''),
          (''description'', JStr ''A red hat''), (''price'', JStr ''12.5''),
          (''available'', JBool True), (''category'', JStr ''CLOTHS'')]),
       location = Some [''products'', ''3'']\<rparr>) \<and>
   JStr ''12.5'' \<noteq> JStr ''12.50''"
proof -
  let ?post = "create_request (Some ''application/json'')
      (Some (fedora_payload (JFloat 25 1) (JBool True)))"
  have m: "meth ?post = POST" and p: "path ?post = [''products'']"
    and c: "content_type ?post = Some ''application/json''"
    and j: "json_body ?post = Some (fedora_payload (JFloat 25 1) (JBool True))"
    by (simp_all add: create_request_def)
  have u: "url_for_get_products 3 = [''products'', ''3'']"
    by (simp add: url_for_get_products_def str_nat_3)
  from create_products_201 [OF c j deserialize_fedora, of example_store]
    dispatch_create [OF m p, of example_Category example_store]
  show ?thesis
    by (simp add: handle_def fresh_id_example_store u serialize_fedora_3)
qed

text \<open>
  C10. For every \<open>POST /products\<close> request answered with 415 or with 400, the table
  after the request is the table before it: no product is created.
\<close>

theorem create_atomic_on_failure:
  assumes "meth req = POST" and "path req = [''products'']"
  shows "status (snd (handle C rows req)) = 415 \<or> status (snd (handle C rows req)) = 400 \<longrightarrow>
           fst (handle C rows req) = rows"
  using create_products_cases [of C rows req] dispatch_create [OF assms, of C rows]
  by (auto simp: handle_def error_response_def)

theorem create_atomic_on_failure_witness:
  "meth (create_request (Some ''application/json'')
      (Some (fedora_payload (JFloat 25 1) (JStr ''true'')))) = POST \<and>
   path (create_request (Some ''application/json'')
      (Some (fedora_payload (JFloat 25 1) (JStr ''true'')))) = [''products''] \<and>
   status (snd (handle example_Category example_store (create_request (Some ''application/json'')
      (Some (fedora_payload (JFloat 25 1) (JStr ''true'')))))) = 400 \<and>
   fst (handle example_Category example_store (create_request (Some ''application/json'')
      (Some (fedora_payload (JFloat 25 1) (JStr ''true''))))) = example_store"
proof -
  let ?req = "create_request (Some ''application/json'')
      (Some (fedora_payload (JFloat 25 1) (JStr ''true'')))"
  have m: "meth ?req = POST" and p: "path ?req = [''products'']"
    by (simp_all add: create_request_def)
  have "create_products example_Category example_store ?req =
      (example_store, Inl DataValidationError)"
    by (simp add: create_products_def check_content_type_def get_json_def create_request_def
        deserialize_fedora_payload_string)
  with dispatch_create [OF m p, of example_Category example_store]
  have s: "status (snd (handle example_Category example_store ?req)) = 400"
    by (simp add: handle_def error_response_def)
  with create_atomic_on_failure [OF m p, of example_Category example_store] m p
  show ?thesis by simp
qed

section \<open>The Content-Type of the mutating endpoints\<close>

text \<open>
  C7, as amended. For every \<open>POST /products\<close> and every \<open>PUT /products/{id}\<close> request
  whose Content-Type header is absent or is not exactly \<open>application/json\<close>, the
  response is 415 and the table is unchanged.
\<close>

theorem content_type_of_create_and_update:
  assumes "content_type req \<noteq> Some ''application/json''"
  shows "(meth req = POST \<and> path req = [''products''] \<longrightarrow>
            handle C rows req = (rows, error_response (HTTPException 415))) \<and>
         (\<forall>product_id. meth req = PUT \<and> path req = [''products'', product_id] \<longrightarrow>
            handle C rows req = (rows, error_response (HTTPException 415)))"
proof -
  have "handle C rows req = (rows, error_response (HTTPException 415))"
    if "meth req = POST" "path req = [''products'']"
    using handle_dispatch [of C rows req rows "Inl (HTTPException 415)"]
      dispatch_create [OF that, of C rows] create_products_415 [OF assms, of C rows]
    by simp
  moreover have "handle C rows req = (rows, error_response (HTTPException 415))"
    if "meth req = PUT" "path req = [''products'', product_id]" for product_id
    using handle_dispatch [of C rows req rows "Inl (HTTPException 415)"]
      dispatch_update [OF that, of C rows] update_products_415 [OF assms, of C rows product_id]
    by simp
  ultimately show ?thesis by blast
qed

theorem content_type_of_create_and_update_witness:
  "content_type (create_request (Some ''application/json; charset=utf-8'')
      (Some (fedora_payload (JStr ''12.50'') (JBool True)))) \<noteq> Some ''application/json'' \<and>
   handle example_Category example_store
     (create_request (Some ''application/json; charset=utf-8'')
        (Some (fedora_payload (JStr ''12.50'') (JBool True)))) =
     (example_store, error_response (HTTPException 415)) \<and>
   content_type (product_request PUT ''1'' None
      (Some (fedora_payload (JStr ''12.50'') (JBool True)))) \<noteq> Some ''application/json'' \<and>
   handle example_Category example_store
     (product_request PUT ''1'' None (Some (fedora_payload (JStr ''12.50'') (JBool True)))) =
     (example_store, error_response (HTTPException 415))"
proof -
  let ?post = "create_request (Some ''application/json; charset=utf-8'')
      (Some (fedora_payload (JStr ''12.50'') (JBool True)))"
  let ?put = "product_request PUT ''1'' None (Some (fedora_payload (JStr ''12.50'') (JBool True)))"
  have c1: "content_type ?post \<noteq> Some ''application/json''"
    by (simp add: create_request_def)
  have c2: "content_type ?put \<noteq> Some ''application/json''"
    by (simp add: product_request_def)
  have "handle example_Category example_store ?post =
      (example_store, error_response (HTTPException 415))"
    using content_type_of_create_and_update [OF c1, of example_Category example_store]
    by (simp add: create_request_def)
  moreover have "handle example_Category example_store ?put =
      (example_store, error_response (HTTPException 415))"
    using content_type_of_create_and_update [OF c2, of example_Category example_store]
    by (simp add: product_request_def)
  ultimately show ?thesis using c1 c2 by simp
qed

text \<open>
  C7 as stated fails on \<open>DELETE\<close>, which does not look at the Content-Type: a
  \<open>DELETE /products/1\<close> without the header deletes the product and is answered 204.
\<close>

theorem content_type_of_delete_counterexample:
  "content_type (product_request DELETE ''1'' None None) = None \<and>
   handle example_Category example_store (product_request DELETE ''1'' None None) =
     ([sold_out_row], \<lparr>status = 204, body = TextBody [], location = None\<rparr>)"
proof -
  have f: "Product_find example_store ''1'' = Some fedora_row"
    by (simp add: Product_find_def nat_of_str_examples example_store_def fedora_row_def)
  have d: "Product_delete example_store fedora_row = [sold_out_row]"
    by (simp add: Product_delete_def example_store_def fedora_row_def sold_out_row_def)
  have "delete_products example_store ''1'' =
      (Product_delete example_store fedora_row,
       Inr \<lparr>status = 204, body = TextBody [], location = None\<rparr>)"
    by (simp add: delete_products_def f)
  then show ?thesis
    using handle_dispatch [of example_Category example_store "product_request DELETE ''1'' None None"]
      dispatch_delete [of "product_request DELETE ''1'' None None" "''1''" example_Category example_store]
    by (simp add: product_request_def d)
qed

section \<open>Updating and deleting a product\<close>

text \<open>
  C9, as amended. For every \<open>PUT /products/{id}\<close> request: a Content-Type that is
  absent or not \<open>application/json\<close> yields 415, whether the id exists or not; with
  Content-Type \<open>application/json\<close> and a body that parses as JSON, a numeric id that no
  product has yields 404, whether the body would deserialize or not. In both cases the
  table is unchanged.
\<close>

theorem update_checks_in_order:
  assumes "meth req = PUT" and "path req = [''products'', product_id]"
  shows "(content_type req \<noteq> Some ''application/json'' \<longrightarrow>
            handle C rows req = (rows, error_response (HTTPException 415))) \<and>
         (content_type req = Some ''application/json'' \<and> json_body req \<noteq> None \<and>
          nat_of_str product_id \<noteq> None \<and> Product_find rows product_id = None \<longrightarrow>
            handle C rows req = (rows, error_response (HTTPException 404)))"
proof -
  note d = dispatch_update [OF assms, of C rows]
  have "handle C rows req = (rows, error_response (HTTPException 415))"
    if "content_type req \<noteq> Some ''application/json''"
    using handle_dispatch [of C rows req rows "Inl (HTTPException 415)"] d
      update_products_415 [OF that, of C rows product_id]
    by simp
  moreover have "handle C rows req = (rows, error_response (HTTPException 404))"
    if "content_type req = Some ''application/json''" "json_body req \<noteq> None"
      "Product_find rows product_id = None"
  proof -
    from that(2) obtain data where "json_body req = Some data" by auto
    from update_products_404 [OF that(1) this that(3), of C] d
      handle_dispatch [of C rows req rows "Inl (HTTPException 404)"]
    show ?thesis by simp
  qed
  ultimately show ?thesis by blast
qed

theorem update_checks_in_order_witness:
  "meth (product_request PUT ''666'' None (Some (JStr ''''))) = PUT \<and>
   path (product_request PUT ''666'' None (Some (JStr ''''))) = [''products'', ''666''] \<and>
   content_type (product_request PUT ''666'' None (Some (JStr ''''))) \<noteq> Some ''application/json'' \<and>
   handle example_Category example_store (product_request PUT ''666'' None (Some (JStr ''''))) =
     (example_store, error_response (HTTPException 415)) \<and>
   content_type (product_request PUT ''666'' (Some ''application/json'') (Some (JStr ''''))) =
     Some ''application/json'' \<and>
   json_body (product_request PUT ''666'' (Some ''application/json'') (Some (JStr ''''))) \<noteq> None \<and>
   nat_of_str ''666'' \<noteq> None \<and> Product_find example_store ''666'' = None \<and>
   deserialize example_Category fedora_row (JStr '''') = Inl DataValidationError \<and>
   handle example_Category example_store
     (product_request PUT ''666'' (Some ''application/json'') (Some (JStr ''''))) =
     (example_store, error_response (HTTPException 404))"
proof -
  have m: "meth (product_request PUT i ct b) = PUT"
    and p: "path (product_request PUT i ct b) = [''products'', i]"
    and c: "content_type (product_request PUT i ct b) = ct"
    and j: "json_body (product_request PUT i ct b) = b" for i ct b
    by (simp_all add: product_request_def)
  have f: "Product_find example_store ''666'' = None"
    by (simp add: Product_find_def nat_of_str_examples example_store_def fedora_row_def
        sold_out_row_def)
  have e: "deserialize example_Category fedora_row (JStr '''') = Inl DataValidationError"
    by (simp add: deserialize_def)
  have "handle example_Category example_store (product_request PUT ''666'' None (Some (JStr ''''))) =
      (example_store, error_response (HTTPException 415))"
    using update_checks_in_order [OF m p, of "''666''" None "Some (JStr '''')" example_Category example_store]
    by (simp add: c)
  moreover have "handle example_Category example_store
      (product_request PUT ''666'' (Some ''application/json'') (Some (JStr ''''))) =
      (example_store, error_response (HTTPException 404))"
    using update_checks_in_order [OF m p, of "''666''" "Some ''application/json''" "Some (JStr '''')"
        example_Category example_store] f
    by (simp add: c j nat_of_str_examples)
  ultimately show ?thesis using m p f e by (simp add: c j nat_of_str_examples)
qed

text \<open>
  C9 as stated fails: the body is parsed before the product is looked up, so a
  \<open>PUT /products/666\<close> with Content-Type \<open>application/json\<close>, no product 666 and a body
  that is not JSON is answered 400, not 404.
\<close>

theorem update_checks_in_order_counterexample:
  "content_type (product_request PUT ''666'' (Some ''application/json'') None) =
     Some ''application/json'' \<and>
   Product_find example_store ''666'' = None \<and>
   handle example_Category example_store
     (product_request PUT ''666'' (Some ''application/json'') None) =
     (example_store, error_response (HTTPException 400))"
proof -
  let ?req = "product_request PUT ''666'' (Some ''application/json'') None"
  have f: "Product_find example_store ''666'' = None"
    by (simp add: Product_find_def nat_of_str_examples example_store_def fedora_row_def
        sold_out_row_def)
  have "update_products example_Category example_store ?req ''666'' =
      (example_store, Inl (HTTPException 400))"
    by (simp add: update_products_def check_content_type_def get_json_def product_request_def)
  then show ?thesis
    using handle_dispatch [of example_Category example_store ?req]
      dispatch_update [of ?req "''666''" example_Category example_store] f
    by (simp add: product_request_def)
qed

text \<open>
  C8. For every id of an existing product, the first \<open>DELETE /products/{id}\<close> is
  answered 204 with an empty body, after it the product is no longer in the table, and
  the second is answered 404.
\<close>

theorem delete_twice:
  assumes "meth req = DELETE" and "path req = [''products'', product_id]"
    and "Product_find rows product_id = Some p"
  shows "handle C rows req =
           (Product_delete rows p, \<lparr>status = 204, body = TextBody [], location = None\<rparr>) \<and>
         Product_find (Product_delete rows p) product_id = None \<and>
         p \<notin> set (Product_delete rows p) \<and>
         handle C (Product_delete rows p) req =
           (Product_delete rows p, error_response (HTTPException 404))"
proof -
  from assms(3) obtain n where n: "nat_of_str product_id = Some n"
    and f: "List.find (\<lambda>q. id' q = Some n) rows = Some p"
    by (auto simp: Product_find_def split: option.splits)
  from f have i: "id' p = Some n"
    by (auto simp: find_Some_iff)
  have gone: "Product_find (Product_delete rows p) product_id = None"
    by (simp add: Product_find_def n Product_delete_def i find_None_iff)
  have "p \<notin> set (Product_delete rows p)"
    by (simp add: Product_delete_def)
  moreover have "handle C rows req =
      (Product_delete rows p, \<lparr>status = 204, body = TextBody [], location = None\<rparr>)"
    using dispatch_delete [OF assms(1,2), of C rows] assms(3)
    by (simp add: handle_def delete_products_def)
  moreover have "handle C (Product_delete rows p) req =
      (Product_delete rows p, error_response (HTTPException 404))"
    using dispatch_delete [OF assms(1,2), of C "Product_delete rows p"] gone
    by (simp add: handle_def delete_products_def)
  ultimately show ?thesis using gone by simp
qed

theorem delete_twice_witness:
  "meth (product_request DELETE ''1'' None None) = DELETE \<and>
   path (product_request DELETE ''1'' None None) = [''products'', ''1''] \<and>
   Product_find example_store ''1'' = Some fedora_row \<and>
   handle example_Category example_store (product_request DELETE ''1'' None None) =
     ([sold_out_row], \<lparr>status = 204, body = TextBody [], location = None\<rparr>) \<and>
   Product_find [sold_out_row] ''1'' = None \<and>
   handle example_Category [sold_out_row] (product_request DELETE ''1'' None None) =
     ([sold_out_row], error_response (HTTPException 404))"
proof -
  let ?req = "product_request DELETE ''1'' None None"
  have m: "meth ?req = DELETE" and p: "path ?req = [''products'', ''1'']"
    by (simp_all add: product_request_def)
  have f: "Product_find example_store ''1'' = Some fedora_row"
    by (simp add: Product_find_def nat_of_str_examples example_store_def fedora_row_def)
  have d: "Product_delete example_store fedora_row = [sold_out_row]"
    by (simp add: Product_delete_def example_store_def fedora_row_def sold_out_row_def)
  from delete_twice [OF m p f, of example_Category] m p f show ?thesis
    by (simp add: d)
qed

end
